theory Spec2Isabelle
  imports Complex_Main "HOL-Library.AList" "HOL-Library.Word"
begin

section \<open>Data model\<close>

text \<open>
  Identifiers are Go strings. A \<open>float64\<close> is idealised as a real number: the model has
  no rounding, no NaN and no infinity (the one infinity the code needs, the initial
  distance of Dijkstra's algorithm, is a constructor of its own further down).
\<close>

type_synonym NodeID = string
type_synonym EdgeID = string
type_synonym float64 = real

text \<open>
  A Go map is an association list with distinct keys: \<open>map_of\<close> reads a key,
  \<open>AList.update\<close> writes one, \<open>AList.delete\<close> removes one, and \<open>range\<close> visits the
  entries in the order of the list. Go leaves that order open; a statement proved
  for every list covers every order a map may enumerate in.
\<close>

type_synonym ('k, 'v) gomap = "('k \<times> 'v) list"

text \<open>\<open>ValueKind\<close> is an \<open>int\<close> with four named constants (\<open>iota\<close>).\<close>

type_synonym ValueKind = int


record Value =
  Kind :: ValueKind
  I :: "64 word"
  F :: float64
  S :: string
  B :: bool

record Node =
  ID :: NodeID
  Props :: "(string, Value) gomap"

record Edge =
  ID :: EdgeID
  From :: NodeID
  To :: NodeID
  Probability :: float64
  Props :: "(string, Value) gomap"

record Path =
  NodeIDs :: "NodeID list"
  Probability :: float64

text \<open>
  The adjacency maps hold \<open>*Edge\<close> pointers, and \<open>Clone\<close> can store a nil pointer there
  (when an adjacency entry names an edge id that the edge map no longer has), so an
  adjacency entry is an \<open>Edge option\<close> with \<open>None\<close> for nil. The edge map and the node
  map are only ever written with fresh allocations.
\<close>

type_synonym adjacency = "(NodeID, (NodeID, Edge option) gomap) gomap"

record ProbabilisticAdjacencyListGraph =
  nodeMap :: "(NodeID, Node) gomap"
  edgeMap :: "(EdgeID, Edge) gomap"
  out :: adjacency
  in_adj :: adjacency

record Condition =
  ForcedActiveEdges :: "Edge list"
  ForcedInactiveEdges :: "Edge list"
  ForcedActiveNodes :: "NodeID list"
  ForcedInactiveNodes :: "NodeID list"

section \<open>Errors\<close>

text \<open>
  \<open>GraphError\<close>, \<open>QueryError\<close> and \<open>SyntaxError\<close> are the structs with a \<open>Kind\<close> and a
  \<open>Message\<close> field. \<open>ErrorString\<close> is an error made by \<open>fmt.Errorf\<close> without \<open>%w\<close>,
  \<open>WrapError\<close> one made with \<open>%w\<close>, \<open>ContextError\<close> is \<open>ctx.Err()\<close>, and \<open>Panic\<close> is a
  run-time panic.
\<close>

datatype error =
    GraphError string string
  | QueryError string string
  | SyntaxError string string
  | ErrorString string
  | WrapError string error
  | ContextError
  | Panic string

text \<open>The kind tag of an error: its \<open>Kind\<close> field, when its type has one.\<close>

fun error_kind :: "error \<Rightarrow> string option" where
  "error_kind (GraphError k m) = Some k"
| "error_kind (QueryError k m) = Some k"
| "error_kind (SyntaxError k m) = Some k"
| "error_kind (ErrorString m) = None"
| "error_kind (WrapError m e) = None"
| "error_kind ContextError = None"
| "error_kind (Panic m) = None"

definition NodeAlreadyExists :: "NodeID \<Rightarrow> error" where
  "NodeAlreadyExists n = GraphError ''NodeAlreadyExists'' (''node '' @ n @ '' already exists'')"

definition NodeDoesNotExist :: "NodeID \<Rightarrow> error" where
  "NodeDoesNotExist n = GraphError ''NodeDoesNotExists'' (''node '' @ n @ '' does not exist'')"

definition EdgeAlreadyExists :: "EdgeID \<Rightarrow> error" where
  "EdgeAlreadyExists e = GraphError ''EdgeAlreadyExists'' (''edge '' @ e @ '' already exists'')"

definition EdgeDoesNotExist :: "NodeID \<Rightarrow> NodeID \<Rightarrow> error" where
  "EdgeDoesNotExist fromID toID =
     GraphError ''EdgeDoesNotExist''
       (''edge from '' @ fromID @ '' to '' @ toID @ '' does not exist'')"

definition EdgeDoesNotExistByID :: "EdgeID \<Rightarrow> error" where
  "EdgeDoesNotExistByID e = GraphError ''EdgeDoesNotExist'' (''edge '' @ e @ '' does not exist'')"

definition nil_dereference :: error where
  "nil_dereference = Panic ''invalid memory address or nil pointer dereference''"

definition nil_map_assignment :: error where
  "nil_map_assignment = Panic ''assignment to entry in nil map''"

section \<open>Graph store\<close>

text \<open>
  Maps of maps. Reading a missing outer key gives the nil map, which reads as empty;
  deleting from the nil map does nothing; assigning into it panics.
\<close>

definition inner_map :: "('k, ('j, 'v) gomap) gomap \<Rightarrow> 'k \<Rightarrow> ('j, 'v) gomap" where
  "inner_map m k = (case map_of m k of None \<Rightarrow> [] | Some l \<Rightarrow> l)"

definition delete_inner ::
  "('k, ('j, 'v) gomap) gomap \<Rightarrow> 'k \<Rightarrow> 'j \<Rightarrow> ('k, ('j, 'v) gomap) gomap" where
  "delete_inner m k j =
     (case map_of m k of None \<Rightarrow> m | Some l \<Rightarrow> AList.update k (AList.delete j l) m)"

definition assign_inner ::
  "('k, ('j, 'v) gomap) gomap \<Rightarrow> 'k \<Rightarrow> 'j \<Rightarrow> 'v \<Rightarrow> error + ('k, ('j, 'v) gomap) gomap" where
  "assign_inner m k j v =
     (case map_of m k of
        None \<Rightarrow> Inl nil_map_assignment
      | Some l \<Rightarrow> Inr (AList.update k (AList.update j v l) m))"

definition CreateProbAdjListGraph :: ProbabilisticAdjacencyListGraph where
  "CreateProbAdjListGraph = \<lparr>nodeMap = [], edgeMap = [], out = [], in_adj = []\<rparr>"

definition ContainsNode :: "ProbabilisticAdjacencyListGraph \<Rightarrow> NodeID \<Rightarrow> bool" where
  "ContainsNode g node = (map_of (nodeMap g) node \<noteq> None)"

definition ContainsEdge :: "ProbabilisticAdjacencyListGraph \<Rightarrow> NodeID \<Rightarrow> NodeID \<Rightarrow> bool" where
  "ContainsEdge g fromID toID = (map_of (inner_map (out g) fromID) toID \<noteq> None)"

definition ContainsEdgeByID :: "ProbabilisticAdjacencyListGraph \<Rightarrow> EdgeID \<Rightarrow> bool" where
  "ContainsEdgeByID g edge = (map_of (edgeMap g) edge \<noteq> None)"

definition AddNode ::
  "ProbabilisticAdjacencyListGraph \<Rightarrow> NodeID \<Rightarrow> (string, Value) gomap
     \<Rightarrow> error + ProbabilisticAdjacencyListGraph" where
  "AddNode g n props =
     (if ContainsNode g n then Inl (NodeAlreadyExists n)
      else Inr (g\<lparr>nodeMap := AList.update n \<lparr>Node.ID = n, Node.Props = props\<rparr> (nodeMap g),
                  out := AList.update n [] (out g),
                  in_adj := AList.update n [] (in_adj g)\<rparr>))"

definition OutgoingEdges ::
  "ProbabilisticAdjacencyListGraph \<Rightarrow> NodeID \<Rightarrow> error + Edge option list" where
  "OutgoingEdges g n =
     (if \<not> ContainsNode g n then Inl (NodeDoesNotExist n)
      else Inr (map snd (inner_map (out g) n)))"

definition IncomingEdges ::
  "ProbabilisticAdjacencyListGraph \<Rightarrow> NodeID \<Rightarrow> error + Edge option list" where
  "IncomingEdges g n =
     (if \<not> ContainsNode g n then Inl (NodeDoesNotExist n)
      else Inr (map snd (inner_map (in_adj g) n)))"

text \<open>The loop \<open>for _, edge := range edges { delete(g.edgeMap, edge.ID) }\<close>.\<close>

fun delete_edge_ids ::
  "Edge option list \<Rightarrow> (EdgeID, Edge) gomap \<Rightarrow> error + (EdgeID, Edge) gomap" where
  "delete_edge_ids [] m = Inr m"
| "delete_edge_ids (None # es) m = Inl nil_dereference"
| "delete_edge_ids (Some e # es) m = delete_edge_ids es (AList.delete (Edge.ID e) m)"

definition RemoveNode ::
  "ProbabilisticAdjacencyListGraph \<Rightarrow> NodeID \<Rightarrow> error + ProbabilisticAdjacencyListGraph" where
  "RemoveNode g n =
     (if \<not> ContainsNode g n then Inl (NodeDoesNotExist n)
      else case OutgoingEdges g n of Inl err \<Rightarrow> Inl err | Inr outgoingEdges \<Rightarrow>
          (case IncomingEdges g n of Inl err \<Rightarrow> Inl err | Inr incomingEdges \<Rightarrow>
          (case delete_edge_ids outgoingEdges (edgeMap g) of Inl err \<Rightarrow> Inl err | Inr em1 \<Rightarrow>
          (case delete_edge_ids incomingEdges em1 of Inl err \<Rightarrow> Inl err | Inr em2 \<Rightarrow>
             Inr (g\<lparr>nodeMap := AList.delete n (nodeMap g),
                     edgeMap := em2,
                     out := AList.delete n (out g),
                     in_adj := AList.delete n (in_adj g)\<rparr>)))))"

definition GetNodes :: "ProbabilisticAdjacencyListGraph \<Rightarrow> Node list" where
  "GetNodes g = map snd (nodeMap g)"

definition AddEdge ::
  "ProbabilisticAdjacencyListGraph \<Rightarrow> EdgeID \<Rightarrow> NodeID \<Rightarrow> NodeID \<Rightarrow> float64
     \<Rightarrow> (string, Value) gomap \<Rightarrow> error + ProbabilisticAdjacencyListGraph" where
  "AddEdge g edgeID fromID toID prob props =
     (if ContainsEdgeByID g edgeID then Inl (EdgeAlreadyExists edgeID)
      else if \<not> ContainsNode g fromID then Inl (NodeDoesNotExist fromID)
      else if \<not> ContainsNode g toID then Inl (NodeDoesNotExist toID)
      else if prob < 0 \<or> prob > 1 then
        Inl (GraphError ''InvalidEdgeProbability'' ''probability must be between 0 and 1'')
      else
        let newEdge = \<lparr>Edge.ID = edgeID, From = fromID, To = toID,
                       Edge.Probability = prob, Edge.Props = props\<rparr>
        in case assign_inner (out g) fromID toID (Some newEdge) of Inl err \<Rightarrow> Inl err | Inr out1 \<Rightarrow>
          (case assign_inner (in_adj g) toID fromID (Some newEdge) of Inl err \<Rightarrow> Inl err | Inr in1 \<Rightarrow>
             Inr (g\<lparr>edgeMap := AList.update edgeID newEdge (edgeMap g),
                     out := out1, in_adj := in1\<rparr>)))"

definition RemoveEdge ::
  "ProbabilisticAdjacencyListGraph \<Rightarrow> NodeID \<Rightarrow> NodeID
     \<Rightarrow> error + ProbabilisticAdjacencyListGraph" where
  "RemoveEdge g fromID toID =
     (if \<not> ContainsNode g fromID then Inl (NodeDoesNotExist fromID)
      else if \<not> ContainsNode g toID then Inl (NodeDoesNotExist toID)
      else case map_of (inner_map (out g) fromID) toID of
             None \<Rightarrow> Inl (EdgeDoesNotExist fromID toID)
           | Some None \<Rightarrow> Inl nil_dereference
           | Some (Some e) \<Rightarrow>
               Inr (g\<lparr>edgeMap := AList.delete (Edge.ID e) (edgeMap g),
                       out := delete_inner (out g) fromID toID,
                       in_adj := delete_inner (in_adj g) toID fromID\<rparr>))"

definition RemoveEdgeByID ::
  "ProbabilisticAdjacencyListGraph \<Rightarrow> EdgeID \<Rightarrow> error + ProbabilisticAdjacencyListGraph" where
  "RemoveEdgeByID g edgeID =
     (case map_of (edgeMap g) edgeID of
        None \<Rightarrow> Inl (EdgeDoesNotExistByID edgeID)
      | Some e \<Rightarrow>
          Inr (g\<lparr>edgeMap := AList.delete edgeID (edgeMap g),
                  out := delete_inner (out g) (From e) (To e),
                  in_adj := delete_inner (in_adj g) (To e) (From e)\<rparr>))"

definition GetEdge ::
  "ProbabilisticAdjacencyListGraph \<Rightarrow> NodeID \<Rightarrow> NodeID \<Rightarrow> error + Edge option" where
  "GetEdge g fromID toID =
     (if \<not> ContainsNode g fromID then Inl (NodeDoesNotExist fromID)
      else if \<not> ContainsNode g toID then Inl (NodeDoesNotExist toID)
      else case map_of (inner_map (out g) fromID) toID of
             None \<Rightarrow> Inl (EdgeDoesNotExist fromID toID)
           | Some e \<Rightarrow> Inr e)"

definition GetEdgeByID :: "ProbabilisticAdjacencyListGraph \<Rightarrow> EdgeID \<Rightarrow> error + Edge" where
  "GetEdgeByID g edgeID =
     (case map_of (edgeMap g) edgeID of
        None \<Rightarrow> Inl (EdgeDoesNotExistByID edgeID)
      | Some edge \<Rightarrow> Inr edge)"

definition GetEdges :: "ProbabilisticAdjacencyListGraph \<Rightarrow> Edge option list" where
  "GetEdges g = concat (map (\<lambda>node. map snd (inner_map (out g) (Node.ID node))) (GetNodes g))"

subsection \<open>Clone\<close>

text \<open>The three loops of \<open>Clone\<close>, each over the entries of one map of the original.\<close>

fun clone_nodes ::
  "(NodeID, Node) gomap \<Rightarrow> ProbabilisticAdjacencyListGraph \<Rightarrow> ProbabilisticAdjacencyListGraph"
  where
  "clone_nodes [] c = c"
| "clone_nodes ((n, node) # rest) c =
     clone_nodes rest
       (c\<lparr>nodeMap := AList.update n \<lparr>Node.ID = Node.ID node, Node.Props = Node.Props node\<rparr>
                       (nodeMap c),
          out := AList.update n [] (out c),
          in_adj := AList.update n [] (in_adj c)\<rparr>)"

fun clone_edges ::
  "(EdgeID, Edge) gomap \<Rightarrow> ProbabilisticAdjacencyListGraph \<Rightarrow> ProbabilisticAdjacencyListGraph"
  where
  "clone_edges [] c = c"
| "clone_edges ((eid, edge) # rest) c =
     clone_edges rest
       (c\<lparr>edgeMap := AList.update eid
                        \<lparr>Edge.ID = Edge.ID edge, From = From edge, To = To edge,
                         Edge.Probability = Edge.Probability edge, Edge.Props = Edge.Props edge\<rparr>
                        (edgeMap c)\<rparr>)"

fun clone_neighbors ::
  "NodeID \<Rightarrow> (NodeID, Edge option) gomap \<Rightarrow> ProbabilisticAdjacencyListGraph
     \<Rightarrow> error + ProbabilisticAdjacencyListGraph" where
  "clone_neighbors fromID [] c = Inr c"
| "clone_neighbors fromID ((toID, None) # rest) c = Inl nil_dereference"
| "clone_neighbors fromID ((toID, Some edge) # rest) c =
     (let clonedEdge = map_of (edgeMap c) (Edge.ID edge)
      in case assign_inner (out c) fromID toID clonedEdge of Inl err \<Rightarrow> Inl err | Inr out1 \<Rightarrow>
        (case assign_inner (in_adj c) toID fromID clonedEdge of Inl err \<Rightarrow> Inl err | Inr in1 \<Rightarrow>
           clone_neighbors fromID rest (c\<lparr>out := out1, in_adj := in1\<rparr>)))"

fun clone_out ::
  "adjacency \<Rightarrow> ProbabilisticAdjacencyListGraph \<Rightarrow> error + ProbabilisticAdjacencyListGraph"
  where
  "clone_out [] c = Inr c"
| "clone_out ((fromID, neighbors) # rest) c =
     (case clone_neighbors fromID neighbors c of
        Inl err \<Rightarrow> Inl err
      | Inr c' \<Rightarrow> clone_out rest c')"

definition Clone ::
  "ProbabilisticAdjacencyListGraph \<Rightarrow> error + ProbabilisticAdjacencyListGraph" where
  "Clone g = clone_out (out g) (clone_edges (edgeMap g) (clone_nodes (nodeMap g) CreateProbAdjListGraph))"

subsection \<open>ApplyCondition\<close>

text \<open>
  \<open>for k := range ks { delete(m[k], n) }\<close>: the node \<open>n\<close> is purged from the inner map
  of every key in \<open>ks\<close>.
\<close>

fun purge :: "NodeID list \<Rightarrow> NodeID \<Rightarrow> adjacency \<Rightarrow> adjacency" where
  "purge [] n m = m"
| "purge (k # ks) n m = purge ks n (delete_inner m k n)"

definition deactivate_node ::
  "ProbabilisticAdjacencyListGraph \<Rightarrow> NodeID \<Rightarrow> ProbabilisticAdjacencyListGraph" where
  "deactivate_node clone n =
     (let in1 = purge (map fst (inner_map (out clone) n)) n (in_adj clone);
          out1 = purge (map fst (inner_map in1 n)) n (out clone)
      in clone\<lparr>nodeMap := AList.delete n (nodeMap clone),
               out := AList.delete n out1,
               in_adj := AList.delete n in1\<rparr>)"

fun inactive_nodes_loop ::
  "NodeID list \<Rightarrow> ProbabilisticAdjacencyListGraph \<Rightarrow> error + ProbabilisticAdjacencyListGraph"
  where
  "inactive_nodes_loop [] clone = Inr clone"
| "inactive_nodes_loop (n # ns) clone =
     (if \<not> ContainsNode clone n then
        Inl (GraphError ''InvalidCondition''
               (''node '' @ n @ '' from condition does not exist in graph''))
      else inactive_nodes_loop ns (deactivate_node clone n))"

fun inactive_edges_loop ::
  "Edge list \<Rightarrow> ProbabilisticAdjacencyListGraph \<Rightarrow> error + ProbabilisticAdjacencyListGraph"
  where
  "inactive_edges_loop [] clone = Inr clone"
| "inactive_edges_loop (edge # es) clone =
     (let fromID = From edge; toID = To edge
      in if \<not> ContainsNode clone fromID \<or> \<not> ContainsNode clone toID then
           Inl (GraphError ''InvalidCondition''
                  (''edge '' @ Edge.ID edge @ '' from condition does not exist in graph''))
         else if ContainsEdge clone fromID toID then
           inactive_edges_loop es
             (clone\<lparr>out := delete_inner (out clone) fromID toID,
                    in_adj := delete_inner (in_adj clone) toID fromID\<rparr>)
         else inactive_edges_loop es clone)"

text \<open>
  \<open>inactiveNodes\<close> is a set built as a map from the list of the condition, then
  ranged over.
\<close>

definition ApplyCondition ::
  "ProbabilisticAdjacencyListGraph \<Rightarrow> Condition \<Rightarrow> error + ProbabilisticAdjacencyListGraph"
  where
  "ApplyCondition g condition =
     (case Clone g of
        Inl err \<Rightarrow> Inl err
      | Inr clone \<Rightarrow>
          let inactiveNodes = foldl (\<lambda>m n. AList.update n () m) [] (ForcedInactiveNodes condition)
          in (case inactive_nodes_loop (map fst inactiveNodes) clone of
                Inl err \<Rightarrow> Inl err
              | Inr clone' \<Rightarrow> inactive_edges_loop (ForcedInactiveEdges condition) clone'))"

section \<open>Results and reducers\<close>

record SampleResult =
  Estimate :: float64
  NumSamples :: int
  Variance :: float64
  StdErr :: float64
  CI95Low :: float64
  CI95High :: float64

datatype Result =
    PathResult Path
  | PathsResult "Path list"
  | ProbabilityResult float64
  | SampleResult SampleResult
  | MultiResult "Result list"
  | BooleanResult bool

text \<open>
  The interface \<open>ProbabilisticResult\<close>: the type assertion succeeds on the three types
  that have the method \<open>ProbabilityValue\<close>, and \<open>None\<close> stands for a failed assertion.
\<close>

fun ProbabilityValue :: "Result \<Rightarrow> float64 option" where
  "ProbabilityValue (PathResult p) = Some (Path.Probability p)"
| "ProbabilityValue (ProbabilityResult p) = Some p"
| "ProbabilityValue (SampleResult r) = Some (Estimate r)"
| "ProbabilityValue (PathsResult ps) = None"
| "ProbabilityValue (MultiResult rs) = None"
| "ProbabilityValue (BooleanResult b) = None"

text \<open>What \<open>%T\<close> prints for a result.\<close>

fun type_name :: "Result \<Rightarrow> string" where
  "type_name (PathResult p) = ''result.PathResult''"
| "type_name (PathsResult ps) = ''result.PathsResult''"
| "type_name (ProbabilityResult p) = ''result.ProbabilityResult''"
| "type_name (SampleResult r) = ''result.SampleResult''"
| "type_name (MultiResult rs) = ''result.MultiResult''"
| "type_name (BooleanResult b) = ''result.BooleanResult''"

datatype Reducer =
    MeanProbabilityReducer
  | BestPathReducer
  | MaxProbabilityReducer
  | MinProbabilityReducer
  | CountAboveThresholdReducer float64

text \<open>
  The loop of \<open>MeanProbabilityReducer.Reduce\<close>, with its two accumulators. The type
  assertion is on the concrete type \<open>ProbabilityResult\<close>.
\<close>

fun mean_loop :: "Result list \<Rightarrow> float64 \<Rightarrow> int \<Rightarrow> error + (float64 \<times> int)" where
  "mean_loop [] acc count = Inr (acc, count)"
| "mean_loop (ProbabilityResult p # rest) acc count = mean_loop rest (acc + p) (count + 1)"
| "mean_loop (res # rest) acc count =
     Inl (ErrorString (''expected ProbabilityResult, got '' @ type_name res))"

fun best_path_loop :: "Result list \<Rightarrow> Path \<Rightarrow> bool \<Rightarrow> error + Path" where
  "best_path_loop [] best found = Inr best"
| "best_path_loop (PathResult pr # rest) best found =
     (if \<not> found \<or> Path.Probability pr > Path.Probability best
      then best_path_loop rest pr True
      else best_path_loop rest best found)"
| "best_path_loop (res # rest) best found = Inl (ErrorString ''expected PathResult'')"

fun max_loop :: "Result list \<Rightarrow> float64 \<Rightarrow> error + float64" where
  "max_loop [] maxProb = Inr maxProb"
| "max_loop (res # rest) maxProb =
     (case ProbabilityValue res of
        None \<Rightarrow> Inl (ErrorString (''expected ProbabilisticResult, got '' @ type_name res))
      | Some v \<Rightarrow> max_loop rest (if v > maxProb then v else maxProb))"

fun min_loop :: "Result list \<Rightarrow> float64 \<Rightarrow> error + float64" where
  "min_loop [] minProb = Inr minProb"
| "min_loop (res # rest) minProb =
     (case ProbabilityValue res of
        None \<Rightarrow> Inl (ErrorString (''expected ProbabilisticResult, got '' @ type_name res))
      | Some v \<Rightarrow> min_loop rest (if v < minProb then v else minProb))"

fun count_above_loop :: "float64 \<Rightarrow> Result list \<Rightarrow> int \<Rightarrow> error + int" where
  "count_above_loop t [] count = Inr count"
| "count_above_loop t (res # rest) count =
     (case ProbabilityValue res of
        None \<Rightarrow> Inl (ErrorString (''expected ProbabilisticResult, got '' @ type_name res))
      | Some v \<Rightarrow> count_above_loop t rest (if v \<ge> t then count + 1 else count))"

text \<open>
  \<open>Reduce\<close>, one equation per reducer type. On an empty list the Go quotients of Mean
  and CountAbove are \<open>0/0\<close>, a NaN, which the real numbers do not have; the equations
  are meant for non-empty lists, the only ones \<open>AggregateQuery\<close> passes on.
\<close>

fun Reduce :: "Reducer \<Rightarrow> Result list \<Rightarrow> error + Result" where
  "Reduce MeanProbabilityReducer results =
     (case mean_loop results 0 0 of
        Inl err \<Rightarrow> Inl err
      | Inr (acc, count) \<Rightarrow> Inr (ProbabilityResult (acc / of_int count)))"
| "Reduce BestPathReducer results =
     (case best_path_loop results \<lparr>NodeIDs = [], Path.Probability = 0\<rparr> False of
        Inl err \<Rightarrow> Inl err
      | Inr best \<Rightarrow> Inr (PathResult best))"
| "Reduce MaxProbabilityReducer results =
     (case max_loop results 0 of
        Inl err \<Rightarrow> Inl err
      | Inr maxProb \<Rightarrow> Inr (ProbabilityResult maxProb))"
| "Reduce MinProbabilityReducer results =
     (case min_loop results 1 of
        Inl err \<Rightarrow> Inl err
      | Inr minProb \<Rightarrow> Inr (ProbabilityResult minProb))"
| "Reduce (CountAboveThresholdReducer t) results =
     (case count_above_loop t results 0 of
        Inl err \<Rightarrow> Inl err
      | Inr count \<Rightarrow> Inr (ProbabilityResult (of_int count / of_int (int (length results)))))"

section \<open>Inference kernels\<close>

subsection \<open>Distances and the priority queue\<close>

text \<open>
  The distances of Dijkstra's algorithm are \<open>float64\<close> values that start at
  \<open>math.Inf(1)\<close>, so they are a real number or plus infinity. \<open>-math.Log(p)\<close> is plus
  infinity at \<open>p = 0\<close>; at \<open>p < 0\<close> Go gives a NaN, for which \<open>alt < dist\<close> is false as
  it is for plus infinity, and \<open>AddEdge\<close> admits no such \<open>p\<close>.
\<close>

datatype dist = Fin float64 | PosInf

fun dist_less :: "dist \<Rightarrow> dist \<Rightarrow> bool" where
  "dist_less (Fin a) (Fin b) = (a < b)"
| "dist_less (Fin a) PosInf = True"
| "dist_less PosInf d = False"

fun dist_add :: "dist \<Rightarrow> dist \<Rightarrow> dist" where
  "dist_add (Fin a) (Fin b) = Fin (a + b)"
| "dist_add (Fin a) PosInf = PosInf"
| "dist_add PosInf d = PosInf"

definition neg_log :: "float64 \<Rightarrow> dist" where
  "neg_log p = (if p \<le> 0 then PosInf else Fin (- ln p))"

text \<open>Reading a missing key of a Go map gives the zero value of the value type.\<close>

definition get_dist :: "(NodeID, dist) gomap \<Rightarrow> NodeID \<Rightarrow> dist" where
  "get_dist d n = (case map_of d n of None \<Rightarrow> Fin 0 | Some x \<Rightarrow> x)"

definition get_prev :: "(NodeID, NodeID) gomap \<Rightarrow> NodeID \<Rightarrow> NodeID" where
  "get_prev prev n = (case map_of prev n of None \<Rightarrow> [] | Some x \<Rightarrow> x)"

definition get_bool :: "('k, bool) gomap \<Rightarrow> 'k \<Rightarrow> bool" where
  "get_bool m k = (case map_of m k of None \<Rightarrow> False | Some b \<Rightarrow> b)"

record PQItem =
  ID :: NodeID
  Priority :: dist

text \<open>
  Modelled from the spec: the type \<open>PriorityQueue\<close> and its heap methods are not among
  the sources. The spec describes it as a min-heap keyed by a real-valued priority,
  stable across equal keys: \<open>Push\<close> adds an item, \<open>Pop\<close> takes out the item of least
  priority, the one pushed first among equals.
\<close>

type_synonym PriorityQueue = "PQItem list"

definition pq_push :: "PriorityQueue \<Rightarrow> PQItem \<Rightarrow> PriorityQueue" where
  "pq_push pq x = pq @ [x]"

fun pq_min :: "PQItem \<Rightarrow> PQItem list \<Rightarrow> PQItem" where
  "pq_min x [] = x"
| "pq_min x (y # ys) = pq_min (if dist_less (Priority y) (Priority x) then y else x) ys"

definition pq_pop :: "PriorityQueue \<Rightarrow> (PQItem \<times> PriorityQueue) option" where
  "pq_pop pq = (case pq of [] \<Rightarrow> None | x # xs \<Rightarrow> Some (pq_min x xs, remove1 (pq_min x xs) pq))"

subsection \<open>MaxProbabilityPath\<close>

type_synonym dijkstra_state =
  "(NodeID, dist) gomap \<times> (NodeID, NodeID) gomap \<times> PriorityQueue"

text \<open>The inner loop over the outgoing edges of \<open>u\<close>.\<close>

fun relax :: "NodeID \<Rightarrow> Edge option list \<Rightarrow> dijkstra_state \<Rightarrow> error + dijkstra_state" where
  "relax u [] st = Inr st"
| "relax u (None # es) st = Inl nil_dereference"
| "relax u (Some edge # es) (dists, prev, pq) =
     (let weight = neg_log (Edge.Probability edge);
          alt = dist_add (get_dist dists u) weight
      in if dist_less alt (get_dist dists (To edge)) then
           relax u es (AList.update (To edge) alt dists,
                       AList.update (To edge) u prev,
                       pq_push pq \<lparr>PQItem.ID = To edge, Priority = alt\<rparr>)
         else relax u es (dists, prev, pq))"

text \<open>
  The main loop \<open>for pq.Len() > 0\<close>. It reaches the graph only through
  \<open>g.OutgoingEdges\<close>, which is what it is given. The loop need not end on a graph
  with an edge of probability above 1, so it is a partial function: \<open>None\<close> is a run
  that does not return.
\<close>

partial_function (option) dijkstra_loop ::
  "(NodeID \<Rightarrow> error + Edge option list) \<Rightarrow> NodeID \<Rightarrow> dijkstra_state
     \<Rightarrow> (error + dijkstra_state) option" where
  "dijkstra_loop outgoing endID st =
     (case st of (dists, prev, pq) \<Rightarrow>
        (case pq_pop pq of
           None \<Rightarrow> Some (Inr st)
         | Some (item, pq') \<Rightarrow>
             if PQItem.ID item = endID then Some (Inr (dists, prev, pq'))
             else if dist_less (get_dist dists (PQItem.ID item)) (Priority item) then
               dijkstra_loop outgoing endID (dists, prev, pq')
             else (case outgoing (PQItem.ID item) of
                     Inl err \<Rightarrow> Some (Inl err)
                   | Inr outgoingEdges \<Rightarrow>
                       (case relax (PQItem.ID item) outgoingEdges (dists, prev, pq') of
                          Inl err \<Rightarrow> Some (Inl err)
                        | Inr st' \<Rightarrow> dijkstra_loop outgoing endID st'))))"

text \<open>
  The loop that walks \<open>prev\<close> back from the end node; it appends to \<open>pathSlice\<close> and
  stops at the start node.
\<close>

partial_function (option) reconstruct ::
  "(NodeID, NodeID) gomap \<Rightarrow> NodeID \<Rightarrow> NodeID \<Rightarrow> NodeID list \<Rightarrow> NodeID list option" where
  "reconstruct prev start cur pathSlice =
     (if cur = start then Some (pathSlice @ [cur])
      else reconstruct prev start (get_prev prev cur) (pathSlice @ [cur]))"

definition MaxProbabilityPath ::
  "ProbabilisticAdjacencyListGraph \<Rightarrow> NodeID \<Rightarrow> NodeID \<Rightarrow> (error + Path) option" where
  "MaxProbabilityPath g start endID =
     (if \<not> ContainsNode g start then
        Some (Inl (GraphError ''NodeDoesNotExist'' (''start node '' @ start @ '' does not exist'')))
      else if \<not> ContainsNode g endID then
        Some (Inl (GraphError ''NodeDoesNotExist'' (''end node '' @ endID @ '' does not exist'')))
      else
        let dist0 = foldl (\<lambda>d node. AList.update (Node.ID node) PosInf d) [] (GetNodes g);
            dist1 = AList.update start (Fin 0) dist0;
            pq = pq_push [] \<lparr>PQItem.ID = start, Priority = Fin 0\<rparr>
        in (case dijkstra_loop (OutgoingEdges g) endID (dist1, [], pq) of
              None \<Rightarrow> None
            | Some (Inl err) \<Rightarrow> Some (Inl err)
            | Some (Inr (dists, prev, pq')) \<Rightarrow>
                (case get_dist dists endID of
                   PosInf \<Rightarrow> Some (Inr \<lparr>NodeIDs = [], Path.Probability = 0\<rparr>)
                 | Fin d \<Rightarrow>
                     (case reconstruct prev start endID [] of
                        None \<Rightarrow> None
                      | Some pathSlice \<Rightarrow>
                          Some (Inr \<lparr>NodeIDs = rev pathSlice, Path.Probability = exp (- d)\<rparr>)))))"

subsection \<open>TopKMaxProbabilityPaths\<close>

text \<open>
  An error value that is a panic is not an \<open>err\<close> the caller can test and skip: it
  unwinds through the callers.
\<close>

fun is_panic :: "error \<Rightarrow> bool" where
  "is_panic (Panic m) = True"
| "is_panic err = False"

definition index :: "'a list \<Rightarrow> nat \<Rightarrow> error + 'a" where
  "index xs i = (if i < length xs then Inr (xs ! i) else Inl (Panic ''index out of range''))"

definition equalNodePrefix :: "NodeID list \<Rightarrow> NodeID list \<Rightarrow> bool" where
  "equalNodePrefix a b =
     (if length a < length b then False
      else list_all (\<lambda>i. a ! i = b ! i) [0..<length b])"

text \<open>
  \<open>pathProbability\<close>: the loop over \<open>i\<close> reads the pairs \<open>nodes[i], nodes[i+1]\<close>, here
  the first two elements of what is left of the list.
\<close>

fun pathProbability_loop ::
  "ProbabilisticAdjacencyListGraph \<Rightarrow> NodeID list \<Rightarrow> float64 \<Rightarrow> error + float64" where
  "pathProbability_loop g (a # b # rest) prob =
     (case GetEdge g a b of
        Inl err \<Rightarrow> Inr 0
      | Inr None \<Rightarrow> Inl nil_dereference
      | Inr (Some edge) \<Rightarrow> pathProbability_loop g (b # rest) (prob * Edge.Probability edge))"
| "pathProbability_loop g nodes prob = Inr prob"

definition pathProbability ::
  "ProbabilisticAdjacencyListGraph \<Rightarrow> NodeID list \<Rightarrow> error + float64" where
  "pathProbability g nodes = pathProbability_loop g nodes 1"

text \<open>
  The loop over \<open>results\<close> that removes from the clone the edges which would recreate
  a path already found. The error of \<open>RemoveEdge\<close> is discarded.
\<close>

fun remove_known_edges ::
  "Path list \<Rightarrow> nat \<Rightarrow> NodeID list \<Rightarrow> ProbabilisticAdjacencyListGraph
     \<Rightarrow> error + ProbabilisticAdjacencyListGraph" where
  "remove_known_edges [] spurIdx rootPathNodes gClone = Inr gClone"
| "remove_known_edges (p # ps) spurIdx rootPathNodes gClone =
     (if length (NodeIDs p) > spurIdx \<and> equalNodePrefix (NodeIDs p) rootPathNodes then
        (case index (NodeIDs p) spurIdx of Inl err \<Rightarrow> Inl err | Inr fromID \<Rightarrow>
        (case index (NodeIDs p) (spurIdx + 1) of Inl err \<Rightarrow> Inl err | Inr toID \<Rightarrow>
        (case RemoveEdge gClone fromID toID of
           Inl err \<Rightarrow>
             if is_panic err then Inl err
             else remove_known_edges ps spurIdx rootPathNodes gClone
         | Inr gClone' \<Rightarrow> remove_known_edges ps spurIdx rootPathNodes gClone')))
      else remove_known_edges ps spurIdx rootPathNodes gClone)"

text \<open>One round of the loop over \<open>spurIdx\<close>; it returns the candidates.\<close>

definition spur_step ::
  "ProbabilisticAdjacencyListGraph \<Rightarrow> NodeID \<Rightarrow> Path list \<Rightarrow> Path \<Rightarrow> nat \<Rightarrow> Path list
     \<Rightarrow> (error + Path list) option" where
  "spur_step g endID results prevPath spurIdx candidates =
     (case index (NodeIDs prevPath) spurIdx of Inl err \<Rightarrow> Some (Inl err) | Inr spurNode \<Rightarrow>
     (let rootPathNodes = take (spurIdx + 1) (NodeIDs prevPath) in
     (case Clone g of Inl err \<Rightarrow> Some (Inl err) | Inr gClone \<Rightarrow>
     (case remove_known_edges results spurIdx rootPathNodes gClone of
        Inl err \<Rightarrow> Some (Inl err)
      | Inr gClone' \<Rightarrow>
     (case MaxProbabilityPath gClone' spurNode endID of
        None \<Rightarrow> None
      | Some (Inl err) \<Rightarrow> if is_panic err then Some (Inl err) else Some (Inr candidates)
      | Some (Inr spurPath) \<Rightarrow>
          if NodeIDs spurPath = [] then Some (Inr candidates)
          else
            (let fullNodes = butlast rootPathNodes @ NodeIDs spurPath in
            (case pathProbability g fullNodes of
               Inl err \<Rightarrow> Some (Inl err)
             | Inr fullProb \<Rightarrow>
                 if list_ex (\<lambda>c. length (NodeIDs c) = length fullNodes
                                  \<and> equalNodePrefix (NodeIDs c) fullNodes) candidates
                 then Some (Inr candidates)
                 else Some (Inr (candidates @
                        [\<lparr>NodeIDs = fullNodes, Path.Probability = fullProb\<rparr>])))))))))"

fun spur_loop ::
  "ProbabilisticAdjacencyListGraph \<Rightarrow> NodeID \<Rightarrow> Path list \<Rightarrow> Path \<Rightarrow> nat list \<Rightarrow> Path list
     \<Rightarrow> (error + Path list) option" where
  "spur_loop g endID results prevPath [] candidates = Some (Inr candidates)"
| "spur_loop g endID results prevPath (spurIdx # rest) candidates =
     (case spur_step g endID results prevPath spurIdx candidates of
        None \<Rightarrow> None
      | Some (Inl err) \<Rightarrow> Some (Inl err)
      | Some (Inr candidates') \<Rightarrow> spur_loop g endID results prevPath rest candidates')"

text \<open>The loop that picks the index of the best candidate.\<close>

definition best_index :: "Path list \<Rightarrow> nat" where
  "best_index candidates =
     foldl (\<lambda>bestIdx j.
              if Path.Probability (candidates ! j) > Path.Probability (candidates ! bestIdx)
              then j else bestIdx)
           0 [1..<length candidates]"

text \<open>
  The loop \<open>for i := 1; i < k; i++\<close>: the first argument counts the rounds that are
  left, \<open>k - i\<close>.
\<close>

fun topk_loop ::
  "ProbabilisticAdjacencyListGraph \<Rightarrow> NodeID \<Rightarrow> nat \<Rightarrow> nat \<Rightarrow> Path list \<Rightarrow> Path list
     \<Rightarrow> (error + Path list) option" where
  "topk_loop g endID 0 i results candidates = Some (Inr results)"
| "topk_loop g endID (Suc n) i results candidates =
     (case index results (i - 1) of Inl err \<Rightarrow> Some (Inl err) | Inr prevPath \<Rightarrow>
     (case spur_loop g endID results prevPath [0..<length (NodeIDs prevPath) - 1] candidates of
        None \<Rightarrow> None
      | Some (Inl err) \<Rightarrow> Some (Inl err)
      | Some (Inr candidates') \<Rightarrow>
          if candidates' = [] then Some (Inr results)
          else
            (let bestIdx = best_index candidates'
             in topk_loop g endID n (i + 1)
                  (results @ [candidates' ! bestIdx])
                  (take bestIdx candidates' @ drop (bestIdx + 1) candidates'))))"

definition TopKMaxProbabilityPaths ::
  "ProbabilisticAdjacencyListGraph \<Rightarrow> NodeID \<Rightarrow> NodeID \<Rightarrow> int \<Rightarrow> (error + Path list) option"
  where
  "TopKMaxProbabilityPaths g start endID k =
     (if k \<le> 0 then Some (Inl (ErrorString ''k must be greater than 0''))
      else
        (case MaxProbabilityPath g start endID of
           None \<Rightarrow> None
         | Some (Inl err) \<Rightarrow> Some (Inl err)
         | Some (Inr firstPath) \<Rightarrow>
             if NodeIDs firstPath = [] then Some (Inr [])
             else topk_loop g endID (nat (k - 1)) 1 [firstPath] []))"

subsection \<open>Exact reachability\<close>

text \<open>
  \<open>dfsProbabilisticReachability\<close> calls itself from the loop over the outgoing edges.
  The two are one function here: \<open>Inl\<close> is a call on a node, \<open>Inr\<close> is the loop at
  the edges that are left, with \<open>failProb\<close> so far. The map \<open>memo\<close> is shared by all
  calls and so is returned; \<open>visited\<close> is restored on return by the deferred delete
  and so is only passed down. Like the loop of Dijkstra's algorithm it is given
  \<open>g.OutgoingEdges\<close>. \<open>Option.bind\<close> runs what follows a call that returns.
\<close>

type_synonym dfs_call =
  "(NodeID \<times> (NodeID, bool) gomap \<times> (NodeID, float64) gomap)
   + (Edge option list \<times> float64 \<times> (NodeID, bool) gomap \<times> (NodeID, float64) gomap)"

partial_function (option) dfsProbabilisticReachability ::
  "(NodeID \<Rightarrow> error + Edge option list) \<Rightarrow> NodeID \<Rightarrow> dfs_call
     \<Rightarrow> (error + float64 \<times> (NodeID, float64) gomap) option" where
  "dfsProbabilisticReachability outgoing endID call =
     (case call of
        Inl (current, visited, memo) \<Rightarrow>
          if current = endID then Some (Inr (1, memo))
          else (case map_of memo current of
                  Some val \<Rightarrow> Some (Inr (val, memo))
                | None \<Rightarrow>
                    if get_bool visited current then Some (Inr (0, memo))
                    else (case outgoing current of
                            Inl err \<Rightarrow> Some (Inl err)
                          | Inr edges \<Rightarrow>
                              if edges = [] then Some (Inr (0, AList.update current 0 memo))
                              else
                                Option.bind
                                  (dfsProbabilisticReachability outgoing endID
                                     (Inr (edges, 1, AList.update current True visited, memo)))
                                  (\<lambda>r. case r of
                                     Inl err \<Rightarrow> Some (Inl err)
                                   | Inr (failProb, memo') \<Rightarrow>
                                       Some (Inr (1 - failProb,
                                                  AList.update current (1 - failProb) memo')))))
      | Inr ([], failProb, visited, memo) \<Rightarrow> Some (Inr (failProb, memo))
      | Inr (None # rest, failProb, visited, memo) \<Rightarrow> Some (Inl nil_dereference)
      | Inr (Some edge # rest, failProb, visited, memo) \<Rightarrow>
          Option.bind
            (dfsProbabilisticReachability outgoing endID (Inl (To edge, visited, memo)))
            (\<lambda>r. case r of
               Inl err \<Rightarrow> Some (Inl err)
             | Inr (childProb, memo') \<Rightarrow>
                 dfsProbabilisticReachability outgoing endID
                   (Inr (rest, failProb * (1 - Edge.Probability edge * childProb),
                         visited, memo'))))"

definition ReachabilityProbability ::
  "ProbabilisticAdjacencyListGraph \<Rightarrow> NodeID \<Rightarrow> NodeID \<Rightarrow> (error + float64) option" where
  "ReachabilityProbability g start endID =
     (case dfsProbabilisticReachability (OutgoingEdges g) endID (Inl (start, [], [])) of
        None \<Rightarrow> None
      | Some (Inl err) \<Rightarrow> Some (Inl err)
      | Some (Inr (p, memo)) \<Rightarrow> Some (Inr p))"

subsection \<open>Monte-Carlo reachability\<close>

text \<open>
  What the program takes from its run-time system, as parameters: the number of
  processors \<open>runtime.GOMAXPROCS(0)\<close>; the generator of \<open>math/rand/v2\<close>, as the
  function that gives the \<open>n\<close>-th value of \<open>Float64()\<close> of the PCG generator seeded
  with two words; the constant \<open>sampling.CI95ZScore\<close>, which is not among the sources;
  and what \<open>%f\<close> prints for a \<open>float64\<close>.
\<close>

record Runtime =
  GOMAXPROCS :: nat
  Float64 :: "64 word \<Rightarrow> 64 word \<Rightarrow> nat \<Rightarrow> float64"
  CI95ZScore :: float64
  Sprintf_f :: "float64 \<Rightarrow> string"

text \<open>
  The edge mask is a map keyed by \<open>*Edge\<close>. A pointer is identified with the edge it
  points to.
\<close>

fun bfs_edges ::
  "(Edge, bool) gomap \<Rightarrow> Edge option list \<Rightarrow> NodeID list \<times> (NodeID, bool) gomap
     \<Rightarrow> NodeID list \<times> (NodeID, bool) gomap" where
  "bfs_edges edgeMask [] (queue, visited) = (queue, visited)"
| "bfs_edges edgeMask (None # es) (queue, visited) = bfs_edges edgeMask es (queue, visited)"
| "bfs_edges edgeMask (Some edge # es) (queue, visited) =
     (if \<not> get_bool edgeMask edge then bfs_edges edgeMask es (queue, visited)
      else if \<not> get_bool visited (To edge) then
        bfs_edges edgeMask es (queue @ [To edge], AList.update (To edge) True visited)
      else bfs_edges edgeMask es (queue, visited))"

partial_function (option) bfs_loop ::
  "(NodeID \<Rightarrow> error + Edge option list) \<Rightarrow> NodeID \<Rightarrow> (Edge, bool) gomap
     \<Rightarrow> NodeID list \<Rightarrow> (NodeID, bool) gomap \<Rightarrow> (error + bool) option" where
  "bfs_loop outgoing endID edgeMask queue visited =
     (case queue of
        [] \<Rightarrow> Some (Inr False)
      | current # queue' \<Rightarrow>
          if current = endID then Some (Inr True)
          else (case outgoing current of
                  Inl err \<Rightarrow> Some (Inl err)
                | Inr edges \<Rightarrow>
                    (case bfs_edges edgeMask edges (queue', visited) of
                       (queue'', visited') \<Rightarrow>
                         bfs_loop outgoing endID edgeMask queue'' visited')))"

definition bfsDeterministicReachability ::
  "ProbabilisticAdjacencyListGraph \<Rightarrow> NodeID \<Rightarrow> NodeID \<Rightarrow> (Edge, bool) gomap
     \<Rightarrow> (error + bool) option" where
  "bfsDeterministicReachability g start endID edgeMask =
     (if \<not> ContainsNode g start then
        Some (Inl (GraphError ''NodeDoesNotExist'' (''start node '' @ start @ '' does not exist'')))
      else if \<not> ContainsNode g endID then
        Some (Inl (GraphError ''NodeDoesNotExist'' (''end node '' @ endID @ '' does not exist'')))
      else bfs_loop (OutgoingEdges g) endID edgeMask [start] [(start, True)])"

text \<open>
  \<open>IndependentEdgeSampler.Sample\<close>: one draw for each edge of \<open>GetEdges\<close>, in order;
  \<open>n\<close> counts the draws the generator has made.
\<close>

fun Sample ::
  "(nat \<Rightarrow> float64) \<Rightarrow> Edge option list \<Rightarrow> nat \<Rightarrow> (Edge, bool) gomap
     \<Rightarrow> error + (Edge, bool) gomap \<times> nat" where
  "Sample rnd [] n edgeMask = Inr (edgeMask, n)"
| "Sample rnd (None # es) n edgeMask = Inl nil_dereference"
| "Sample rnd (Some edge # es) n edgeMask =
     Sample rnd es (n + 1) (AList.update edge (rnd n \<le> Edge.Probability edge) edgeMask)"

text \<open>The loop of one worker over its trials.\<close>

fun worker_loop ::
  "ProbabilisticAdjacencyListGraph \<Rightarrow> NodeID \<Rightarrow> NodeID \<Rightarrow> (nat \<Rightarrow> float64) \<Rightarrow> nat \<Rightarrow> nat
     \<Rightarrow> int \<Rightarrow> (error + int) option" where
  "worker_loop g start endID rnd 0 n successes = Some (Inr successes)"
| "worker_loop g start endID rnd (Suc t) n successes =
     (case Sample rnd (GetEdges g) n [] of
        Inl err \<Rightarrow> Some (Inl err)
      | Inr (edgeMask, n') \<Rightarrow>
          (case bfsDeterministicReachability g start endID edgeMask of
             None \<Rightarrow> None
           | Some (Inl err) \<Rightarrow> Some (Inl err)
           | Some (Inr reachable) \<Rightarrow>
               worker_loop g start endID rnd t n'
                 (if reachable then successes + 1 else successes)))"

text \<open>
  The workers run one after the other here, and their results are added up in the
  order of the workers: a schedule the program may take.
\<close>

fun workers_loop ::
  "Runtime \<Rightarrow> ProbabilisticAdjacencyListGraph \<Rightarrow> NodeID \<Rightarrow> NodeID \<Rightarrow> 64 word \<Rightarrow> int \<Rightarrow> int
     \<Rightarrow> nat list \<Rightarrow> int \<Rightarrow> int \<Rightarrow> (error + int \<times> int) option" where
  "workers_loop rt g start endID seed samplesPerWorker remainder [] totalSuccesses totalTrials =
     Some (Inr (totalSuccesses, totalTrials))"
| "workers_loop rt g start endID seed samplesPerWorker remainder (w # ws) totalSuccesses totalTrials =
     (let trials = (if int w < remainder then samplesPerWorker + 1 else samplesPerWorker);
          rnd = Float64 rt (seed + of_nat w) (xor seed 0xda942042e4dd58b5 + of_nat w)
      in (case worker_loop g start endID rnd (nat trials) 0 0 of
            None \<Rightarrow> None
          | Some (Inl err) \<Rightarrow> Some (Inl err)
          | Some (Inr successes) \<Rightarrow>
              workers_loop rt g start endID seed samplesPerWorker remainder ws
                (totalSuccesses + successes) (totalTrials + trials)))"

definition ReachabilityProbabilityMonteCarlo ::
  "Runtime \<Rightarrow> ProbabilisticAdjacencyListGraph \<Rightarrow> NodeID \<Rightarrow> NodeID \<Rightarrow> int \<Rightarrow> 64 word
     \<Rightarrow> (error + SampleResult) option" where
  "ReachabilityProbabilityMonteCarlo rt g start endID numSamples seed =
     (if numSamples \<le> 0 then Some (Inl (ErrorString ''numSamples must be greater than 0''))
      else
        (let numWorkers = min (int (GOMAXPROCS rt)) numSamples
         in if numWorkers = 0 then Some (Inl (Panic ''integer divide by zero''))
            else
              (case workers_loop rt g start endID seed
                      (numSamples div numWorkers) (numSamples mod numWorkers)
                      [0..<nat numWorkers] 0 0 of
                 None \<Rightarrow> None
               | Some (Inl err) \<Rightarrow> Some (Inl err)
               | Some (Inr (totalSuccesses, totalTrials)) \<Rightarrow>
                   (let p = of_int totalSuccesses / of_int totalTrials;
                        variance = p * (1 - p);
                        stderr = sqrt (variance / of_int totalTrials)
                    in Some (Inr \<lparr>Estimate = p, NumSamples = numSamples, Variance = variance,
                                  StdErr = stderr,
                                  CI95Low = p - CI95ZScore rt * stderr,
                                  CI95High = p + CI95ZScore rt * stderr\<rparr>)))))"

section \<open>Queries\<close>

text \<open>
  The query types of package \<open>query\<close>. \<open>InferenceMode\<close> is an \<open>int\<close> with two named
  constants. The field \<open>Then\<close> of a \<open>SequentialQuery\<close> is a function from the first result
  to the next query or an error. A context is either live or already cancelled when
  it is tested; a cancellation that arrives while a query runs is outside the model.
\<close>

type_synonym InferenceMode = int

definition Exact :: InferenceMode where "Exact = 0"
definition MonteCarlo :: InferenceMode where "MonteCarlo = 1"

datatype Context = Background | Cancelled

datatype Query =
    MaxProbabilityPathQuery NodeID NodeID
  | TopKProbabilityPathsQuery NodeID NodeID int
  | ReachabilityProbabilityQuery NodeID NodeID InferenceMode "64 word"
  | ConditionalQuery Condition Query
  | MultiQuery "Query list"
  | AggregateQuery "Query list" Reducer
  | SequentialQuery Query "Result \<Rightarrow> error + Query"
  | ThresholdQuery Query float64
  | AndQuery "Query list"
  | OrQuery "Query list"

text \<open>
  \<open>executeConcurrent\<close> starts one goroutine for each subquery and gathers what they
  send. Here it is given the outcomes of the subqueries in the order of the
  subqueries. When several subqueries fail, the program returns the error that
  arrives first; the model returns the one of the first failing subquery, a schedule
  the program may take. A subquery that does not return keeps the program waiting
  unless an error arrives.
\<close>

fun first_error :: "(error + 'a) option list \<Rightarrow> error option" where
  "first_error [] = None"
| "first_error (Some (Inl err) # rest) = Some err"
| "first_error (x # rest) = first_error rest"

fun gather :: "(error + 'a) option list \<Rightarrow> 'a list option" where
  "gather [] = Some []"
| "gather (Some (Inr r) # rest) = (case gather rest of None \<Rightarrow> None | Some rs \<Rightarrow> Some (r # rs))"
| "gather (x # rest) = None"

definition executeConcurrent ::
  "(error + Result) option list \<Rightarrow> (Result list \<Rightarrow> error + Result) \<Rightarrow> (error + Result) option"
  where
  "executeConcurrent outcomes reduce =
     (if outcomes = [] then
        Some (Inl (QueryError ''InvalidStructure'' ''query requires at least one subquery''))
      else (case first_error outcomes of
              Some err \<Rightarrow> Some (Inl err)
            | None \<Rightarrow> (case gather outcomes of
                         None \<Rightarrow> None
                       | Some results \<Rightarrow> Some (reduce results))))"

fun and_loop :: "Result list \<Rightarrow> float64 \<Rightarrow> error + float64" where
  "and_loop [] probability = Inr probability"
| "and_loop (r # rs) probability =
     (case ProbabilityValue r of
        None \<Rightarrow> Inl (QueryError ''TypeMismatch''
                      (''inner query expected ProbabilisticResult, got '' @ type_name r))
      | Some v \<Rightarrow> and_loop rs (probability * v))"

fun or_loop :: "Result list \<Rightarrow> float64 \<Rightarrow> error + float64" where
  "or_loop [] probability = Inr probability"
| "or_loop (r # rs) probability =
     (case ProbabilityValue r of
        None \<Rightarrow> Inl (QueryError ''TypeMismatch''
                      (''inner query expected ProbabilisticResult, got '' @ type_name r))
      | Some v \<Rightarrow> or_loop rs (probability * (1 - v)))"

text \<open>
  \<open>Execute\<close>, by recursion on the query. In a \<open>SequentialQuery\<close> the query that \<open>Then\<close>
  returns runs on the same graph: \<open>map_sum\<close> runs it inside the value that \<open>Then\<close>
  returns and leaves an error of \<open>Then\<close> as it is.
\<close>

primrec Execute ::
  "Runtime \<Rightarrow> Context \<Rightarrow> ProbabilisticAdjacencyListGraph \<Rightarrow> Query \<Rightarrow> (error + Result) option"
  where
  "Execute rt ctx g (MaxProbabilityPathQuery start endID) =
     (if ctx = Cancelled then Some (Inl ContextError)
      else (case MaxProbabilityPath g start endID of
              None \<Rightarrow> None
            | Some (Inl err) \<Rightarrow> Some (Inl err)
            | Some (Inr path) \<Rightarrow> Some (Inr (PathResult path))))"
| "Execute rt ctx g (TopKProbabilityPathsQuery start endID k) =
     (if ctx = Cancelled then Some (Inl ContextError)
      else (case TopKMaxProbabilityPaths g start endID k of
              None \<Rightarrow> None
            | Some (Inl err) \<Rightarrow> Some (Inl err)
            | Some (Inr paths) \<Rightarrow> Some (Inr (PathsResult paths))))"
| "Execute rt ctx g (ReachabilityProbabilityQuery start endID mode seed) =
     (if ctx = Cancelled then Some (Inl ContextError)
      else if mode = Exact then
        (case ReachabilityProbability g start endID of
           None \<Rightarrow> None
         | Some (Inl err) \<Rightarrow> Some (Inl err)
         | Some (Inr probability) \<Rightarrow> Some (Inr (ProbabilityResult probability)))
      else if mode = MonteCarlo then
        (case ReachabilityProbabilityMonteCarlo rt g start endID 10000 seed of
           None \<Rightarrow> None
         | Some (Inl err) \<Rightarrow> Some (Inl err)
         | Some (Inr sampleResult) \<Rightarrow> Some (Inr (SampleResult sampleResult)))
      else Some (Inl (QueryError ''InvalidMode''
                        ''inference mode should be query.Exact or query.MonteCarlo'')))"
| "Execute rt ctx g (ConditionalQuery condition inner) =
     (if ctx = Cancelled then Some (Inl ContextError)
      else (case ApplyCondition g condition of
              Inl err \<Rightarrow> Some (Inl err)
            | Inr conditionedGraph \<Rightarrow> Execute rt ctx conditionedGraph inner))"
| "Execute rt ctx g (MultiQuery queries) =
     executeConcurrent (map (Execute rt ctx g) queries) (\<lambda>results. Inr (MultiResult results))"
| "Execute rt ctx g (AggregateQuery queries reducer) =
     (case executeConcurrent (map (Execute rt ctx g) queries)
             (\<lambda>results. Inr (MultiResult results)) of
        None \<Rightarrow> None
      | Some (Inl err) \<Rightarrow> Some (Inl err)
      | Some (Inr (MultiResult results)) \<Rightarrow> Some (Reduce reducer results)
      | Some (Inr queryResults) \<Rightarrow>
          Some (Inl (QueryError ''TypeMismatch''
                       (''inner query expected ProbabilisticResult, got '' @ type_name queryResults))))"
| "Execute rt ctx g (SequentialQuery first thenFn) =
     (case Execute rt ctx g first of
        None \<Rightarrow> None
      | Some (Inl err) \<Rightarrow> Some (Inl err)
      | Some (Inr firstResult) \<Rightarrow>
          (case map_sum (\<lambda>err. err) (Execute rt ctx g) (thenFn firstResult) of
             Inl err \<Rightarrow> Some (Inl err)
           | Inr outcome \<Rightarrow> outcome))"
| "Execute rt ctx g (ThresholdQuery inner threshold) =
     (case Execute rt ctx g inner of
        None \<Rightarrow> None
      | Some (Inl err) \<Rightarrow> Some (Inl err)
      | Some (Inr queryResult) \<Rightarrow>
          (case ProbabilityValue queryResult of
             None \<Rightarrow>
               Some (Inl (QueryError ''TypeMismatch''
                            (''inner query expected ProbabilisticResult, got ''
                               @ type_name queryResult)))
           | Some v \<Rightarrow>
               if threshold < 0 \<or> threshold > 1 then
                 Some (Inl (QueryError ''InvalidParameter''
                              (''threshold must be between 0 and 1, got '' @ Sprintf_f rt threshold)))
               else Some (Inr (BooleanResult (v \<ge> threshold)))))"
| "Execute rt ctx g (AndQuery queries) =
     executeConcurrent (map (Execute rt ctx g) queries)
       (\<lambda>results. case and_loop results 1 of
                     Inl err \<Rightarrow> Inl err
                   | Inr probability \<Rightarrow> Inr (ProbabilityResult probability))"
| "Execute rt ctx g (OrQuery queries) =
     executeConcurrent (map (Execute rt ctx g) queries)
       (\<lambda>results. case or_loop results 1 of
                     Inl err \<Rightarrow> Inl err
                   | Inr probability \<Rightarrow> Inr (ProbabilityResult (1 - probability)))"

section \<open>Query language: conditions\<close>

record EdgeConditionAST =
  EdgeID :: string
  State :: string

record NodeConditionAST =
  NodeID :: string
  State :: string

record ConditionItemAST =
  Edge :: "EdgeConditionAST option"
  Node :: "NodeConditionAST option"





section \<open>Invariants of the store\<close>






text \<open>Assigning the entries of one inner map into another, in order.\<close>

definition assign_all :: "('j \<times> 'v) list \<Rightarrow> ('j \<times> 'v) list \<Rightarrow> ('j \<times> 'v) list" where
  "assign_all N l = foldl (\<lambda>l (t, v). AList.update t v l) l N"




section \<open>Example graphs\<close>

definition new_edge :: "EdgeID \<Rightarrow> NodeID \<Rightarrow> NodeID \<Rightarrow> float64 \<Rightarrow> Edge" where
  "new_edge e a b p = \<lparr>Edge.ID = e, From = a, To = b, Edge.Probability = p, Edge.Props = []\<rparr>"

definition new_node :: "NodeID \<Rightarrow> Node" where
  "new_node n = \<lparr>Node.ID = n, Node.Props = []\<rparr>"

text \<open>Two nodes and the edge \<open>eAB\<close> from \<open>A\<close> to \<open>B\<close> with probability one half.\<close>

definition graph_AB :: ProbabilisticAdjacencyListGraph where
  "graph_AB =
     \<lparr>nodeMap = [(''A'', new_node ''A''), (''B'', new_node ''B'')],
      edgeMap = [(''eAB'', new_edge ''eAB'' ''A'' ''B'' (1/2))],
      out = [(''A'', [(''B'', Some (new_edge ''eAB'' ''A'' ''B'' (1/2)))]), (''B'', [])],
      in_adj = [(''A'', []), (''B'', [(''A'', Some (new_edge ''eAB'' ''A'' ''B'' (1/2)))])]\<rparr>"

text \<open>
  Four nodes; the sure path \<open>A, B, T\<close>, the path \<open>A, C, T\<close> of probability one quarter,
  and a sure edge from \<open>C\<close> back to \<open>A\<close>.
\<close>

definition graph_cycle :: ProbabilisticAdjacencyListGraph where
  "graph_cycle =
     \<lparr>nodeMap = [(''A'', new_node ''A''), (''B'', new_node ''B''),
                 (''C'', new_node ''C''), (''T'', new_node ''T'')],
      edgeMap = [(''eAB'', new_edge ''eAB'' ''A'' ''B'' 1),
                 (''eBT'', new_edge ''eBT'' ''B'' ''T'' 1),
                 (''eAC'', new_edge ''eAC'' ''A'' ''C'' (1/2)),
                 (''eCT'', new_edge ''eCT'' ''C'' ''T'' (1/2)),
                 (''eCA'', new_edge ''eCA'' ''C'' ''A'' 1)],
      out = [(''A'', [(''B'', Some (new_edge ''eAB'' ''A'' ''B'' 1)),
                      (''C'', Some (new_edge ''eAC'' ''A'' ''C'' (1/2)))]),
             (''B'', [(''T'', Some (new_edge ''eBT'' ''B'' ''T'' 1))]),
             (''C'', [(''T'', Some (new_edge ''eCT'' ''C'' ''T'' (1/2))),
                      (''A'', Some (new_edge ''eCA'' ''C'' ''A'' 1))]),
             (''T'', [])],
      in_adj = [(''A'', [(''C'', Some (new_edge ''eCA'' ''C'' ''A'' 1))]),
                (''B'', [(''A'', Some (new_edge ''eAB'' ''A'' ''B'' 1))]),
                (''C'', [(''A'', Some (new_edge ''eAC'' ''A'' ''C'' (1/2)))]),
                (''T'', [(''B'', Some (new_edge ''eBT'' ''B'' ''T'' 1)),
                         (''C'', Some (new_edge ''eCT'' ''C'' ''T'' (1/2)))])]\<rparr>"

text \<open>The graphs as the store builds them, starting from the empty graph.\<close>

fun add_nodes ::
  "NodeID list \<Rightarrow> ProbabilisticAdjacencyListGraph \<Rightarrow> error + ProbabilisticAdjacencyListGraph"
  where
  "add_nodes [] g = Inr g"
| "add_nodes (n # ns) g = (case AddNode g n [] of Inl err \<Rightarrow> Inl err | Inr g' \<Rightarrow> add_nodes ns g')"

fun add_edges ::
  "(EdgeID \<times> NodeID \<times> NodeID \<times> float64) list \<Rightarrow> ProbabilisticAdjacencyListGraph
     \<Rightarrow> error + ProbabilisticAdjacencyListGraph" where
  "add_edges [] g = Inr g"
| "add_edges ((e, a, b, p) # es) g =
     (case AddEdge g e a b p [] of Inl err \<Rightarrow> Inl err | Inr g' \<Rightarrow> add_edges es g')"

definition build ::
  "NodeID list \<Rightarrow> (EdgeID \<times> NodeID \<times> NodeID \<times> float64) list
     \<Rightarrow> error + ProbabilisticAdjacencyListGraph" where
  "build ns es =
     (case add_nodes ns CreateProbAdjListGraph of Inl err \<Rightarrow> Inl err | Inr g \<Rightarrow> add_edges es g)"


section \<open>Serialization\<close>

subsection \<open>The encoding/json package\<close>

text \<open>
  A JSON document, after parsing. The members of an object are listed in the order
  in which they are written. A number is written either from an integer, digit by
  digit, or from a \<open>float64\<close>, in the shortest form that reads back as the same
  \<open>float64\<close>; the document keeps which of the two it was. A string is its bytes: the
  escapes of the text are already undone.
\<close>

datatype json =
    JNull
  | JBool bool
  | JInt int
  | JFloat float64
  | JString string
  | JArray "json list"
  | JObject "(string \<times> json) list"

text \<open>
  The dynamic type of a value held in a Go \<open>any\<close>: what the store puts there
  (\<open>int64\<close>, \<open>float64\<close>, \<open>string\<close>, \<open>bool\<close>), and what the decoder puts there (\<open>nil\<close>,
  \<open>bool\<close>, \<open>float64\<close>, \<open>string\<close>, \<open>[]any\<close> and \<open>map[string]any\<close>; the last two keep
  their elements undecoded, no code looks at them).
\<close>

datatype any =
    NilAny
  | BoolAny bool
  | Int64Any "64 word"
  | Float64Any float64
  | StringAny string
  | SliceAny "json list"
  | MapAny "(string \<times> json) list"

text \<open>
  \<open>utf8.DecodeRuneInString\<close>, as far as the encoder uses it: the width of the
  well-formed UTF-8 sequence at the head of the bytes, and 0 when there is none.
\<close>

definition continuation :: "nat \<Rightarrow> bool" where
  "continuation b = (128 \<le> b \<and> b \<le> 191)"

definition second_byte_ok :: "nat \<Rightarrow> nat \<Rightarrow> bool" where
  "second_byte_ok b0 b1 =
     (if b0 = 224 then 160 \<le> b1 \<and> b1 \<le> 191
      else if b0 = 237 then 128 \<le> b1 \<and> b1 \<le> 159
      else if b0 = 240 then 144 \<le> b1 \<and> b1 \<le> 191
      else if b0 = 244 then 128 \<le> b1 \<and> b1 \<le> 143
      else continuation b1)"

fun rune_width :: "nat list \<Rightarrow> nat" where
  "rune_width [] = 0"
| "rune_width (b0 # bs) =
     (if b0 < 128 then 1
      else if 194 \<le> b0 \<and> b0 \<le> 223 then
        (case bs of b1 # rest \<Rightarrow> if continuation b1 then 2 else 0 | _ \<Rightarrow> 0)
      else if 224 \<le> b0 \<and> b0 \<le> 239 then
        (case bs of b1 # b2 # rest \<Rightarrow>
           if second_byte_ok b0 b1 \<and> continuation b2 then 3 else 0 | _ \<Rightarrow> 0)
      else if 240 \<le> b0 \<and> b0 \<le> 244 then
        (case bs of b1 # b2 # b3 # rest \<Rightarrow>
           if second_byte_ok b0 b1 \<and> continuation b2 \<and> continuation b3 then 4 else 0
         | _ \<Rightarrow> 0)
      else 0)"

text \<open>The bytes of U+FFFD, the replacement character.\<close>

definition replacement_char :: string where
  "replacement_char = [char_of (239 :: nat), char_of (191 :: nat), char_of (189 :: nat)]"

text \<open>
  What a Go string reads as after the encoder has written it and the decoder has
  read it: the encoder writes each byte that starts no well-formed sequence as
  the escape of U+FFFD and copies the rest (escaped or not, the decoder undoes it). The first
  argument counts the bytes of the current sequence that are still to copy.
\<close>

fun replace_invalid :: "nat \<Rightarrow> string \<Rightarrow> string" where
  "replace_invalid k [] = []"
| "replace_invalid (Suc k) (c # cs) = c # replace_invalid k cs"
| "replace_invalid 0 (c # cs) =
     (let size = rune_width (map of_char (c # take 3 cs))
      in if size = 0 then replacement_char @ replace_invalid 0 cs
         else c # replace_invalid (size - 1) cs)"

text \<open>\<open>utf8.ValidString\<close>: the strings that the encoder writes as they are.\<close>

definition valid_utf8 :: "string \<Rightarrow> bool" where
  "valid_utf8 s = (replace_invalid 0 s = s)"

text \<open>
  The \<open>float64\<close> nearest to an integer, ties to the even mantissa, which is what
  \<open>strconv.ParseFloat\<close> returns for an integer literal: the integer is cut to its 53
  leading bits. The result is an integer again. (Above \<open>2 ^ 1024\<close> the parser reports
  a range error instead; see \<open>decode_float64\<close>.)
\<close>

fun bit_len :: "nat \<Rightarrow> nat" where
  "bit_len n = (if n = 0 then 0 else Suc (bit_len (n div 2)))"

declare bit_len.simps [simp del]





subsection \<open>The serialized form\<close>

record serializedValue =
  Kind :: string
  Value :: any

record serializedNode =
  ID :: string
  Props :: "(string, serializedValue) gomap"

record serializedEdge =
  ID :: string
  From :: string
  To :: string
  Probability :: float64
  Props :: "(string, serializedValue) gomap"














subsection \<open>Encoding and decoding\<close>





















subsection \<open>WriteJSON and ReadJSON\<close>




subsection \<open>Graphs that cannot be told apart\<close>


















subsection \<open>Example graphs for the round trip\<close>












section \<open>Properties\<close>

subsection \<open>The example graphs\<close>

lemmas store_defs =
  CreateProbAdjListGraph_def ContainsNode_def ContainsEdge_def ContainsEdgeByID_def
  AddNode_def AddEdge_def RemoveNode_def RemoveEdge_def RemoveEdgeByID_def GetEdge_def
  GetEdgeByID_def OutgoingEdges_def IncomingEdges_def GetNodes_def GetEdges_def
  inner_map_def delete_inner_def assign_inner_def Let_def new_edge_def new_node_def
  NodeDoesNotExist_def NodeAlreadyExists_def EdgeDoesNotExist_def EdgeDoesNotExistByID_def
  EdgeAlreadyExists_def

lemma build_graph_AB: "build [''A'', ''B''] [(''eAB'', ''A'', ''B'', 1/2)] = Inr graph_AB"
  by (simp add: build_def graph_AB_def store_defs)

lemma build_graph_cycle:
  "build [''A'', ''B'', ''C'', ''T'']
     [(''eAB'', ''A'', ''B'', 1), (''eBT'', ''B'', ''T'', 1), (''eAC'', ''A'', ''C'', 1/2),
      (''eCT'', ''C'', ''T'', 1/2), (''eCA'', ''C'', ''A'', 1)] = Inr graph_cycle"
  by (simp add: build_def graph_cycle_def store_defs)

subsection \<open>Removing a node\<close>

text \<open>
  C1. After \<open>RemoveNode\<close> succeeds, no reference to the removed node should remain in
  either adjacency direction. \<open>RemoveNode\<close> deletes the node's own two inner maps and
  the ids of its incident edges, but not the entries that other nodes hold for it:
  in the graph with the edge from \<open>A\<close> to \<open>B\<close>, removing \<open>B\<close> succeeds, \<open>B\<close> is gone from
  the node map and \<open>eAB\<close> from the edge map, and \<open>ContainsEdge A B\<close> is still true.
\<close>

theorem RemoveNode_leaves_adjacency_entry:
  "map_sum id (\<lambda>g. (ContainsNode g ''B'', ContainsEdgeByID g ''eAB'', ContainsEdge g ''A'' ''B''))
     (RemoveNode graph_AB ''B'') = Inr (False, False, True)"
  by (simp add: graph_AB_def store_defs)

subsection \<open>Forced-active edges\<close>

text \<open>
  C2. A condition that forces an edge of the graph active should give a clone in
  which that edge has probability 1, and leave the original as it was.
  \<open>ApplyCondition\<close> never reads \<open>ForcedActiveEdges\<close>: with the edge \<open>eAB\<close> of probability
  one half forced active, the clone is the graph itself and the edge keeps its
  probability, in the edge map and in the adjacency map.
\<close>

theorem ApplyCondition_ignores_forced_active_edge:
  "ApplyCondition graph_AB
     \<lparr>ForcedActiveEdges = [new_edge ''eAB'' ''A'' ''B'' (1/2)], ForcedInactiveEdges = [],
      ForcedActiveNodes = [], ForcedInactiveNodes = []\<rparr> = Inr graph_AB
   \<and> map_option Edge.Probability (map_of (edgeMap graph_AB) ''eAB'') = Some (1/2)
   \<and> GetEdge graph_AB ''A'' ''B'' = Inr (Some (new_edge ''eAB'' ''A'' ''B'' (1/2)))"
  by (simp add: ApplyCondition_def Clone_def graph_AB_def store_defs)

subsection \<open>Top-K paths\<close>

lemma neg_log_one: "neg_log 1 = Fin 0"
  by (simp add: neg_log_def)

lemma neg_log_half: "neg_log (1/2) = Fin (ln 2)"
  by (simp add: neg_log_def ln_div)

lemmas inference_defs =
  MaxProbabilityPath_def pq_push_def dijkstra_loop.simps pq_pop_def get_dist_def
  reconstruct.simps get_prev_def TopKMaxProbabilityPaths_def spur_step_def index_def
  Clone_def equalNodePrefix_def pathProbability_def best_index_def upt_rec numeral_nat
  neg_log_one neg_log_half

text \<open>
  C3. The list returned by \<open>TopKMaxProbabilityPaths\<close> should be sorted, the most
  probable path first. The spur paths are searched in a clone from which only edges
  are removed, never the nodes of the root path, and the best candidate of a round
  is appended without comparing it to the paths already returned. On the graph with
  the cycle and \<open>K = 3\<close> the third path returned walks \<open>A, C, A, B, T\<close> and has
  probability one half, after a second path of probability one quarter.
\<close>

theorem TopK_not_sorted:
  "TopKMaxProbabilityPaths graph_cycle ''A'' ''T'' 3 =
     Some (Inr [\<lparr>NodeIDs = [''A'', ''B'', ''T''], Path.Probability = 1\<rparr>,
                \<lparr>NodeIDs = [''A'', ''C'', ''T''], Path.Probability = 1/4\<rparr>,
                \<lparr>NodeIDs = [''A'', ''C'', ''A'', ''B'', ''T''], Path.Probability = 1/2\<rparr>])"
  by (simp add: inference_defs graph_cycle_def store_defs)

text \<open>
  C8. \<open>TopKMaxProbabilityPaths\<close> with \<open>K \<le> 0\<close> should fail with an error of kind
  \<open>InvalidParameter\<close>. It fails and returns no paths, but the error is made by
  \<open>fmt.Errorf\<close> and has no kind at all.
\<close>

theorem TopK_zero_error_has_no_kind:
  "TopKMaxProbabilityPaths g start endID 0 = Some (Inl (ErrorString ''k must be greater than 0''))
   \<and> error_kind (ErrorString ''k must be greater than 0'') = None"
  by (simp add: TopKMaxProbabilityPaths_def)

lemma TopK_nonpositive:
  "k \<le> 0 \<Longrightarrow>
   TopKMaxProbabilityPaths g start endID k = Some (Inl (ErrorString ''k must be greater than 0''))"
  by (simp add: TopKMaxProbabilityPaths_def)

subsection \<open>Kind tags of errors\<close>

text \<open>
  C6. An operation that fails because a node is absent should return an error of kind
  \<open>NodeDoesNotExist\<close>. The operations of the store all take their error from the
  constructor \<open>NodeDoesNotExist\<close>, whose kind is spelled \<open>NodeDoesNotExists\<close>; only the
  inference kernels, which build the error themselves, spell it as the claim does.
\<close>

theorem store_absent_node_kind:
  "map_sum error_kind id (RemoveNode CreateProbAdjListGraph ''A'') = Inl (Some ''NodeDoesNotExists'')
   \<and> map_sum error_kind id (AddEdge CreateProbAdjListGraph ''e'' ''A'' ''B'' (1/2) [])
       = Inl (Some ''NodeDoesNotExists'')
   \<and> map_sum error_kind id (RemoveEdge CreateProbAdjListGraph ''A'' ''B'')
       = Inl (Some ''NodeDoesNotExists'')
   \<and> map_sum error_kind id (GetEdge CreateProbAdjListGraph ''A'' ''B'')
       = Inl (Some ''NodeDoesNotExists'')
   \<and> map_sum error_kind id (OutgoingEdges CreateProbAdjListGraph ''A'')
       = Inl (Some ''NodeDoesNotExists'')
   \<and> map_sum error_kind id (IncomingEdges CreateProbAdjListGraph ''A'')
       = Inl (Some ''NodeDoesNotExists'')
   \<and> map_option (map_sum error_kind id) (MaxProbabilityPath CreateProbAdjListGraph ''A'' ''B'')
       = Some (Inl (Some ''NodeDoesNotExist''))"
  by (simp add: store_defs MaxProbabilityPath_def)

lemma absent_node_errors:
  assumes "\<not> ContainsNode g n"
  shows "RemoveNode g n = Inl (NodeDoesNotExist n)"
    and "\<not> ContainsEdgeByID g e \<Longrightarrow> AddEdge g e n b p props = Inl (NodeDoesNotExist n)"
    and "RemoveEdge g n b = Inl (NodeDoesNotExist n)"
    and "GetEdge g n b = Inl (NodeDoesNotExist n)"
    and "OutgoingEdges g n = Inl (NodeDoesNotExist n)"
    and "IncomingEdges g n = Inl (NodeDoesNotExist n)"
    and "error_kind (NodeDoesNotExist n) = Some ''NodeDoesNotExists''"
  using assms
  by (simp_all add: RemoveNode_def AddEdge_def RemoveEdge_def GetEdge_def OutgoingEdges_def
      IncomingEdges_def NodeDoesNotExist_def)

subsection \<open>The Mean reducer\<close>

text \<open>
  C7. The Mean reducer should accept every probability-bearing result and return
  the mean of the probability values. It asserts the concrete type
  \<open>ProbabilityResult\<close> where the other reducers assert the interface, and so rejects a
  path result.
\<close>

theorem Mean_rejects_path_result:
  "Reduce MeanProbabilityReducer [PathResult \<lparr>NodeIDs = [''A'', ''B''], Path.Probability = 4/5\<rparr>]
     = Inl (ErrorString ''expected ProbabilityResult, got result.PathResult'')
   \<and> Reduce MaxProbabilityReducer [PathResult \<lparr>NodeIDs = [''A'', ''B''], Path.Probability = 4/5\<rparr>]
     = Inr (ProbabilityResult (4/5))"
  by simp

lemma mean_loop_probabilities:
  "mean_loop (map ProbabilityResult ps) acc count = Inr (acc + sum_list ps, count + int (length ps))"
  by (induction ps arbitrary: acc count) simp_all

lemma Mean_of_probabilities:
  "Reduce MeanProbabilityReducer (map ProbabilityResult ps)
     = Inr (ProbabilityResult (sum_list ps / of_nat (length ps)))"
  by (simp add: mean_loop_probabilities)

subsection \<open>Conditions built from the query language\<close>






subsection \<open>Maps as association lists\<close>

lemma edge_copy [simp]:
  "\<lparr>Edge.ID = Edge.ID e, Edge.From = Edge.From e, Edge.To = Edge.To e, Edge.Probability = Edge.Probability e,
     Edge.Props = Edge.Props e\<rparr> = e"
  by simp

lemma node_copy [simp]: "\<lparr>Node.ID = Node.ID n, Node.Props = Node.Props n\<rparr> = n"
  by simp

lemma update_fresh: "k \<notin> fst ` set m \<Longrightarrow> AList.update k v m = m @ [(k, v)]"
  by (induction m) auto

lemma inner_map_update: "inner_map (AList.update k l m) k' = (if k' = k then l else inner_map m k')"
  by (simp add: inner_map_def update_conv')

lemma lookup_delete_inner:
  "map_of (inner_map (delete_inner m k j) k') j'
     = (if k' = k \<and> j' = j then None else map_of (inner_map m k') j')"
  by (auto simp: delete_inner_def inner_map_update delete_conv split: option.splits)
     (auto simp: inner_map_def)

subsection \<open>The edge map under Clone and ApplyCondition\<close>

lemma clone_nodes_edgeMap [simp]: "edgeMap (clone_nodes ns c) = edgeMap c"
  by (induction ns arbitrary: c) auto

lemma clone_edges_edgeMap:
  "distinct (map fst es) \<Longrightarrow> fst ` set es \<inter> fst ` set (edgeMap c) = {}
   \<Longrightarrow> edgeMap (clone_edges es c) = edgeMap c @ es"
proof (induction es arbitrary: c)
  case Nil
  then show ?case by simp
next
  case (Cons x es)
  obtain k e where x: "x = (k, e)" by (cases x)
  have fresh: "k \<notin> fst ` set (edgeMap c)" using Cons.prems x by auto
  show ?case using Cons.prems x Cons.IH [of "c\<lparr>edgeMap := edgeMap c @ [(k, e)]\<rparr>"]
    by (auto simp: update_fresh [OF fresh])
qed

lemma clone_neighbors_edgeMap:
  "clone_neighbors f ns c = Inr c' \<Longrightarrow> edgeMap c' = edgeMap c"
  by (induction f ns c rule: clone_neighbors.induct) (auto simp: Let_def split: sum.splits)

lemma clone_out_edgeMap: "clone_out m c = Inr c' \<Longrightarrow> edgeMap c' = edgeMap c"
  by (induction m c rule: clone_out.induct) (auto split: sum.splits dest: clone_neighbors_edgeMap)

lemma Clone_edgeMap:
  "distinct (map fst (edgeMap g)) \<Longrightarrow> Clone g = Inr c \<Longrightarrow> edgeMap c = edgeMap g"
  using clone_out_edgeMap [of "out g" _ c]
    clone_edges_edgeMap [of "edgeMap g" "clone_nodes (nodeMap g) CreateProbAdjListGraph"]
  by (simp add: Clone_def CreateProbAdjListGraph_def)

lemma inactive_nodes_loop_edgeMap:
  "inactive_nodes_loop ns c = Inr c' \<Longrightarrow> edgeMap c' = edgeMap c"
  by (induction ns c rule: inactive_nodes_loop.induct)
     (auto simp: deactivate_node_def Let_def split: if_splits)

lemma inactive_edges_loop_edgeMap:
  "inactive_edges_loop es c = Inr c' \<Longrightarrow> edgeMap c' = edgeMap c"
  by (induction es c rule: inactive_edges_loop.induct) (auto simp: Let_def split: if_splits)

lemma inactive_edges_loop_absent:
  "inactive_edges_loop es c = Inr c' \<Longrightarrow> \<not> ContainsEdge c a b \<Longrightarrow> \<not> ContainsEdge c' a b"
  by (induction es c rule: inactive_edges_loop.induct)
     (auto simp: Let_def ContainsEdge_def lookup_delete_inner split: if_splits)

lemma inactive_edges_loop_removes:
  "inactive_edges_loop es c = Inr c' \<Longrightarrow> e \<in> set es \<Longrightarrow> \<not> ContainsEdge c' (Edge.From e) (Edge.To e)"
proof (induction es c rule: inactive_edges_loop.induct)
  case (1 clone)
  then show ?case by simp
next
  case (2 edge es clone)
  show ?case
  proof (cases "e = edge")
    case True
    then show ?thesis using "2.prems"
      by (auto simp: Let_def ContainsEdge_def lookup_delete_inner split: if_splits
               dest!: inactive_edges_loop_absent [where a = "Edge.From edge" and b = "Edge.To edge"])
  next
    case False
    then show ?thesis using 2 by (auto simp: Let_def split: if_splits)
  qed
qed

text \<open>
  C10. When a condition forces inactive an edge \<open>e\<close> of the graph and \<open>ApplyCondition\<close>
  returns a clone (which it does when both endpoints are in it), the clone still has
  \<open>e\<close> in its edge map: \<open>ContainsEdgeByID\<close> is true and \<open>GetEdgeByID\<close> returns \<open>e\<close>, while
  \<open>ContainsEdge\<close> on the endpoints of \<open>e\<close> is false. That \<open>e\<close> is an edge of the graph
  is read as: the edge map, a map, holds \<open>e\<close> under the id of \<open>e\<close>.
\<close>

theorem ApplyCondition_keeps_inactive_edge_id:
  assumes "distinct (map fst (edgeMap g))"
    and "map_of (edgeMap g) (Edge.ID e) = Some e"
    and "e \<in> set (ForcedInactiveEdges condition)"
    and "ApplyCondition g condition = Inr clone"
  shows "ContainsEdgeByID clone (Edge.ID e) \<and> GetEdgeByID clone (Edge.ID e) = Inr e
         \<and> \<not> ContainsEdge clone (Edge.From e) (Edge.To e)"
proof -
  from assms(4) obtain c1 c2 where c1: "Clone g = Inr c1"
    and c2: "inactive_nodes_loop
               (map fst (foldl (\<lambda>m n. AList.update n () m) [] (ForcedInactiveNodes condition)))
               c1 = Inr c2"
    and c3: "inactive_edges_loop (ForcedInactiveEdges condition) c2 = Inr clone"
    by (auto simp: ApplyCondition_def Let_def split: sum.splits)
  have "edgeMap clone = edgeMap g"
    using Clone_edgeMap [OF assms(1) c1] inactive_nodes_loop_edgeMap [OF c2]
      inactive_edges_loop_edgeMap [OF c3] by simp
  then show ?thesis
    using assms(2) inactive_edges_loop_removes [OF c3 assms(3)]
    by (simp add: ContainsEdgeByID_def GetEdgeByID_def)
qed

lemma ApplyCondition_graph_AB_inactive:
  "ApplyCondition graph_AB
     \<lparr>ForcedActiveEdges = [], ForcedInactiveEdges = [new_edge ''eAB'' ''A'' ''B'' (1/2)],
      ForcedActiveNodes = [], ForcedInactiveNodes = []\<rparr>
   = Inr (graph_AB\<lparr>out := [(''A'', []), (''B'', [])], in_adj := [(''A'', []), (''B'', [])]\<rparr>)"
  by (simp add: ApplyCondition_def Clone_def graph_AB_def store_defs)

theorem ApplyCondition_keeps_inactive_edge_id_witness:
  "ContainsEdgeByID (graph_AB\<lparr>out := [(''A'', []), (''B'', [])], in_adj := [(''A'', []), (''B'', [])]\<rparr>)
     ''eAB''
   \<and> GetEdgeByID (graph_AB\<lparr>out := [(''A'', []), (''B'', [])], in_adj := [(''A'', []), (''B'', [])]\<rparr>)
       ''eAB'' = Inr (new_edge ''eAB'' ''A'' ''B'' (1/2))
   \<and> \<not> ContainsEdge (graph_AB\<lparr>out := [(''A'', []), (''B'', [])], in_adj := [(''A'', []), (''B'', [])]\<rparr>)
         ''A'' ''B''"
proof -
  have a: "distinct (map fst (edgeMap graph_AB))"
    by (simp add: graph_AB_def)
  have b: "map_of (edgeMap graph_AB) (Edge.ID (new_edge ''eAB'' ''A'' ''B'' (1/2)))
             = Some (new_edge ''eAB'' ''A'' ''B'' (1/2))"
    by (simp add: graph_AB_def new_edge_def)
  have c: "new_edge ''eAB'' ''A'' ''B'' (1/2)
             \<in> set (ForcedInactiveEdges
                      \<lparr>ForcedActiveEdges = [],
                       ForcedInactiveEdges = [new_edge ''eAB'' ''A'' ''B'' (1/2)],
                       ForcedActiveNodes = [], ForcedInactiveNodes = []\<rparr>)"
    by simp
  show ?thesis
    using ApplyCondition_keeps_inactive_edge_id [OF a b c ApplyCondition_graph_AB_inactive]
    by (simp add: new_edge_def)
qed

subsection \<open>The invariants at each key\<close>





lemma inner_map_Nil [simp]: "inner_map [] k = []"
  by (simp add: inner_map_def)



subsection \<open>Maps of maps\<close>

lemma map_of_Some_key: "map_of m k = Some l \<Longrightarrow> k \<in> fst ` set m"
  by (force dest: map_of_SomeD)

lemma keys_delete_inner [simp]: "map fst (delete_inner m k j) = map fst m"
proof (cases "map_of m k")
  case None
  then show ?thesis by (simp add: delete_inner_def)
next
  case (Some l)
  then show ?thesis
    using map_of_Some_key [OF Some] by (simp add: delete_inner_def update_keys)
qed




lemma keys_purge [simp]: "map fst (purge ks n m) = map fst m"
  by (induction ks arbitrary: m) auto


lemma assign_all_simps [simp]:
  "assign_all [] l = l"
  "assign_all ((t, v) # N) l = assign_all N (AList.update t v l)"
  by (simp_all add: assign_all_def)



lemma clone_edges_other [simp]:
  "nodeMap (clone_edges es c) = nodeMap c" "out (clone_edges es c) = out c"
  "in_adj (clone_edges es c) = in_adj c"
  by (induction es arbitrary: c) auto

subsection \<open>What Clone returns\<close>





lemma inner_map_empty_table [simp]: "inner_map (map (\<lambda>p. (fst p, [])) ns) k = []"
  by (induction ns) (auto simp: inner_map_def)


subsection \<open>The invariants under RemoveEdge and ApplyCondition\<close>






lemma map_of_None_keys: "map_of l k = None \<longleftrightarrow> k \<notin> set (map fst l)"
  by (simp add: map_of_eq_None_iff)



subsection \<open>Graphs that show the same to a query\<close>






















subsection \<open>Conditioning on an inactive edge\<close>

text \<open>The sequential query, with the case analysis that the program makes.\<close>

lemma Execute_SequentialQuery:
  "Execute rt ctx g (SequentialQuery first thenFn) =
     (case Execute rt ctx g first of
        None \<Rightarrow> None
      | Some (Inl err) \<Rightarrow> Some (Inl err)
      | Some (Inr firstResult) \<Rightarrow>
          (case thenFn firstResult of
             Inl err \<Rightarrow> Some (Inl err)
           | Inr thenQuery \<Rightarrow> Execute rt ctx g thenQuery))"
  by (simp split: option.splits sum.splits)






lemma cancelled_empty_composite:
  "Execute rt Cancelled g (ConditionalQuery c (MultiQuery [])) = Some (Inl ContextError)"
  "Execute rt Cancelled g' (MultiQuery [])
     = Some (Inl (QueryError ''InvalidStructure'' ''query requires at least one subquery''))"
  by (simp_all add: executeConcurrent_def)





subsection \<open>Serialization: numbers and strings on the wire\<close>

lemma bit_len_0 [simp]: "bit_len 0 = 0"
  by (simp add: bit_len.simps)

lemma bit_len_1 [simp]: "bit_len (Suc 0) = 1"
  by (simp add: bit_len.simps [of "Suc 0"])

lemma bit_len_numeral [simp]: "bit_len (numeral n) = Suc (bit_len (numeral n div 2))"
  by (subst bit_len.simps) simp






lemma valid_utf8_D: "valid_utf8 s \<Longrightarrow> replace_invalid 0 s = s"
  by (simp add: valid_utf8_def)

subsection \<open>A property value on the wire\<close>




subsection \<open>A property map on the wire\<close>











subsection \<open>Nodes, edges and the graph on the wire\<close>






subsection \<open>Reading the nodes and the edges\<close>

lemma map_of_rev_Cons:
  "map_of (rev (x # xs)) = map_of [x] ++ map_of (rev xs)"
  by simp





subsection \<open>The nodes and the edges of a valid graph\<close>

















subsection \<open>What reading back preserves\<close>




subsection \<open>The round trip\<close>

lemma read_back_lookup:
  assumes "\<And>x. R x (f x)"
  shows "rel_option R (Some x) (Some (f x))"
  using assms by simp


subsection \<open>The round trip on examples\<close>











end
